theory Spec2Isabelle
  imports Complex_Main "HOL-Library.Word"
begin

section \<open>Values, strings and errors\<close>

text \<open>
  A JavaScript string is a sequence of UTF-16 code units: \<open>length\<close>, \<open>substring\<close> and
  \<open>trim\<close> all count code units. JavaScript numbers are modelled by the reals (vector
  components, scores, thresholds) and by \<open>nat\<close>/\<open>int\<close> (counts, sizes, offsets): rounding,
  overflow and the special values of IEEE doubles are outside the model, except in
  \<open>jsvalue\<close>, the argument type of the one function that inspects them.
\<close>

type_synonym jsstring = "16 word list"

text \<open>\<open>RAGError(operation, message)\<close>, \<open>IngestionError(source, message)\<close>, and any other
  \<open>Error\<close> thrown by a collaborator (provider client, embedder, document store).\<close>

datatype error =
    RAGError string string
  | IngestionError string string
  | ExternalError string

text \<open>\<open>error.message\<close>, as the constructors of \<open>AppError\<close> build it.\<close>

fun error_message :: "error \<Rightarrow> string" where
  "error_message (RAGError operation message) = ''RAG '' @ operation @ '': '' @ message"
| "error_message (IngestionError source message) = ''Ingestion '' @ source @ '': '' @ message"
| "error_message (ExternalError message) = message"

text \<open>\<open>x || d\<close> on an optional number: \<open>undefined\<close> and \<open>0\<close> are falsy.\<close>

definition js_or :: "'a::zero option \<Rightarrow> 'a \<Rightarrow> 'a" where
  "js_or x d = (case x of None \<Rightarrow> d | Some v \<Rightarrow> if v = 0 then d else v)"

text \<open>\<open>s.substring(a, b)\<close>: both indices are clamped to \<open>[0, length]\<close> and swapped when
  \<open>a > b\<close>.\<close>

definition substring :: "'a list \<Rightarrow> int \<Rightarrow> int \<Rightarrow> 'a list" where
  "substring s a b =
     (let n = int (length s);
          a' = max 0 (min a n);
          b' = max 0 (min b n);
          lo = min a' b';
          hi = max a' b'
      in take (nat (hi - lo)) (drop (nat lo) s))"

text \<open>The code units that \<open>String.prototype.trim\<close> removes (WhiteSpace and
  LineTerminator of ECMAScript).\<close>

definition is_js_whitespace :: "16 word \<Rightarrow> bool" where
  "is_js_whitespace c =
     (c = 0x9 \<or> c = 0xA \<or> c = 0xB \<or> c = 0xC \<or> c = 0xD \<or> c = 0x20 \<or> c = 0xA0
      \<or> c = 0x1680 \<or> (0x2000 \<le> c \<and> c \<le> 0x200A) \<or> c = 0x2028 \<or> c = 0x2029
      \<or> c = 0x202F \<or> c = 0x205F \<or> c = 0x3000 \<or> c = 0xFEFF)"

definition trim :: "jsstring \<Rightarrow> jsstring" where
  "trim s = rev (dropWhile is_js_whitespace (rev (dropWhile is_js_whitespace s)))"

text \<open>\<open>Math.round((processed / total) * 100)\<close> with \<open>total = n > 0\<close>: the nearest integer,
  halves rounded up.\<close>

definition round_percentage :: "nat \<Rightarrow> nat \<Rightarrow> nat" where
  "round_percentage processed n = (200 * processed + n) div (2 * n)"


section \<open>Configuration\<close>

text \<open>\<open>config.rag\<close> of the environment configuration.\<close>

record Config =
  rag_embeddingModel :: string
  rag_vectorDimension :: nat
  rag_similarityThreshold :: real
  rag_maxRetrievalResults :: nat
  rag_chunkSize :: int
  rag_chunkOverlap :: int

text \<open>The values of \<open>config.rag\<close> when no environment variable overrides them.\<close>

definition default_config :: Config where
  "default_config =
     \<lparr> rag_embeddingModel = ''text-embedding-004'',
       rag_vectorDimension = 768,
       rag_similarityThreshold = 7 / 10,
       rag_maxRetrievalResults = 10,
       rag_chunkSize = 1000,
       rag_chunkOverlap = 200 \<rparr>"


section \<open>IngestionService.chunkText\<close>

text \<open>
  The \<open>while\<close> loop of \<open>chunkText\<close>, with its two variables \<open>start\<close> and \<open>chunks\<close>. The
  loop need not end (it does not when \<open>overlap \<ge> chunkSize\<close> and the text is longer than a
  chunk), so it is a partial function: \<open>None\<close> is "does not return".
\<close>

partial_function (option) chunkText_loop ::
  "'a list \<Rightarrow> int \<Rightarrow> int \<Rightarrow> int \<Rightarrow> 'a list list \<Rightarrow> 'a list list option" where
  "chunkText_loop text chunkSize overlap start chunks =
     (if start < int (length text) then
        (let end = min (start + chunkSize) (int (length text));
             chunk = substring text start end;
             chunks' = chunks @ [chunk]
         in if end = int (length text) then Some chunks'
            else chunkText_loop text chunkSize overlap (end - overlap) chunks')
      else Some chunks)"

declare chunkText_loop.simps [code]

definition chunkText :: "'a list \<Rightarrow> int \<Rightarrow> int \<Rightarrow> 'a list list option" where
  "chunkText text chunkSize overlap = chunkText_loop text chunkSize overlap 0 []"


section \<open>EmbeddingService\<close>

record EmbeddingService =
  es_model :: string
  es_dimensions :: nat
  es_maxTextLength :: nat
  es_batchSize :: nat

definition EmbeddingService_new :: "Config \<Rightarrow> EmbeddingService" where
  "EmbeddingService_new config =
     \<lparr> es_model = rag_embeddingModel config,
       es_dimensions = rag_vectorDimension config,
       es_maxTextLength = 8192,
       es_batchSize = 100 \<rparr>"

text \<open>The request's \<open>metadata\<close> is copied to the response unread, and \<open>processingTime\<close>
  is a clock difference; neither is modelled.\<close>

record EmbeddingRequest =
  req_text :: jsstring

record EmbeddingResponse =
  resp_embedding :: "real list"
  resp_text :: jsstring
  resp_model :: string
  resp_dimensions :: nat

text \<open>
  The \<open>try\<close> block of \<open>generateEmbedding\<close>. The hosted embedding model
  (\<open>embed({embedder: textEmbedding004, content})\<close>) is the parameter \<open>embedder\<close>: it returns a
  vector or throws. The empty string is falsy, so it is rejected by the first check.
\<close>

definition generateEmbedding_try ::
  "EmbeddingService \<Rightarrow> (jsstring \<Rightarrow> error + real list) \<Rightarrow> EmbeddingRequest
     \<Rightarrow> error + EmbeddingResponse" where
  "generateEmbedding_try svc embedder request =
     (if req_text request = [] then
        Inl (RAGError ''embedding'' ''Text is required and must be a string'')
      else if length (trim (req_text request)) = 0 then
        Inl (RAGError ''embedding'' ''Text cannot be empty'')
      else
        (let processedText =
               (if length (req_text request) > es_maxTextLength svc
                then substring (req_text request) 0 (int (es_maxTextLength svc))
                else req_text request)
         in case embedder processedText of
              Inl e \<Rightarrow> Inl e
            | Inr result \<Rightarrow>
                Inr \<lparr> resp_embedding = result,
                      resp_text = processedText,
                      resp_model = es_model svc,
                      resp_dimensions = es_dimensions svc \<rparr>))"

text \<open>The \<open>catch\<close> block: a \<open>RAGError\<close> is rethrown, anything else is wrapped in one.\<close>

definition generateEmbedding ::
  "EmbeddingService \<Rightarrow> (jsstring \<Rightarrow> error + real list) \<Rightarrow> EmbeddingRequest
     \<Rightarrow> error + EmbeddingResponse" where
  "generateEmbedding svc embedder request =
     (case generateEmbedding_try svc embedder request of
        Inr response \<Rightarrow> Inr response
      | Inl (RAGError operation message) \<Rightarrow> Inl (RAGError operation message)
      | Inl e \<Rightarrow>
          Inl (RAGError ''embedding'' (''Failed to generate embedding: '' @ error_message e)))"

text \<open>The \<open>for\<close> loop shared by both similarity functions: the three running sums
  \<open>(dotProduct, norm1, norm2)\<close> over the indices of the first vector.\<close>

definition similarity_sums :: "real list \<Rightarrow> real list \<Rightarrow> real \<times> real \<times> real" where
  "similarity_sums v1 v2 =
     foldl (\<lambda>(dotProduct, norm1, norm2) i.
              (dotProduct + v1 ! i * v2 ! i, norm1 + v1 ! i * v1 ! i, norm2 + v2 ! i * v2 ! i))
           (0, 0, 0) [0..<length v1]"


text \<open>The specification's terms for what the two similarity functions compute: the dot
  product of two vectors and the magnitude of a vector.\<close>

definition dot :: "real list \<Rightarrow> real list \<Rightarrow> real" where
  "dot a b = (\<Sum>(x, y)\<leftarrow>zip a b. x * y)"

definition magnitude :: "real list \<Rightarrow> real" where
  "magnitude a = sqrt (dot a a)"


text \<open>
  \<open>validateEmbedding\<close> inspects its argument at run time (\<open>Array.isArray\<close>, \<open>typeof\<close>,
  \<open>isNaN\<close>), so its argument is an arbitrary JavaScript value; a number is a finite
  real, \<open>NaN\<close> or one of the two infinities.
\<close>

datatype jsvalue =
    JSNumber real
  | JSNaN
  | JSInfinity
  | JSNegInfinity
  | JSString jsstring
  | JSBoolean bool
  | JSUndefined
  | JSNull
  | JSObject
  | JSArray "jsvalue list"

fun typeof :: "jsvalue \<Rightarrow> string" where
  "typeof (JSNumber r) = ''number''"
| "typeof JSNaN = ''number''"
| "typeof JSInfinity = ''number''"
| "typeof JSNegInfinity = ''number''"
| "typeof (JSString s) = ''string''"
| "typeof (JSBoolean b) = ''boolean''"
| "typeof JSUndefined = ''undefined''"
| "typeof JSNull = ''object''"
| "typeof JSObject = ''object''"
| "typeof (JSArray xs) = ''object''"

text \<open>\<open>isNaN\<close> on a value of type number (the only place the code calls it).\<close>

fun isNaN :: "jsvalue \<Rightarrow> bool" where
  "isNaN JSNaN = True"
| "isNaN v = False"

fun isArray :: "jsvalue \<Rightarrow> bool" where
  "isArray (JSArray xs) = True"
| "isArray v = False"

fun array_elements :: "jsvalue \<Rightarrow> jsvalue list" where
  "array_elements (JSArray xs) = xs"
| "array_elements v = []"

definition validateEmbedding :: "EmbeddingService \<Rightarrow> jsvalue \<Rightarrow> bool" where
  "validateEmbedding svc embedding =
     (if \<not> isArray embedding then False
      else if length (array_elements embedding) \<noteq> es_dimensions svc then False
      else list_all (\<lambda>value. typeof value = ''number'' \<and> \<not> isNaN value)
             (array_elements embedding))"

text \<open>What the specification calls a finite number.\<close>

fun is_finite_number :: "jsvalue \<Rightarrow> bool" where
  "is_finite_number (JSNumber r) = True"
| "is_finite_number v = False"


section \<open>FirestoreService\<close>

text \<open>The fields of \<open>DocumentMetadata\<close> that the code reads or writes; \<open>chunkIndex\<close> and
  \<open>totalChunks\<close> are the two keys an ingestion job adds to the metadata of a chunk's
  embedding.\<close>

record DocumentMetadata =
  md_source :: string
  md_type :: string
  md_scientificName :: "string option"
  md_country :: "string option"
  md_chunkIndex :: "nat option"
  md_totalChunks :: "nat option"

record StoredDocument =
  sd_content :: jsstring
  sd_metadata :: DocumentMetadata

record StoredEmbedding =
  se_documentId :: nat
  se_embedding :: "real list"
  se_content :: jsstring
  se_metadata :: DocumentMetadata
  se_model :: string
  se_dimensions :: nat

text \<open>
  The two collections of the document store, in the order in which documents were
  added, which is also the order in which a query returns them. The identifier that
  \<open>add\<close> returns is the position of the new document in its collection. Whether the
  store accepts an \<open>add\<close> is a parameter of each write (\<open>Some message\<close>: the write throws
  with that message); reads of the store do not fail in this model. The \<open>createdAt\<close> and
  \<open>updatedAt\<close> timestamps of stored documents are not modelled.
\<close>

record DocStore =
  knowledgeBase :: "StoredDocument list"
  embeddings :: "StoredEmbedding list"

definition storeDocument ::
  "(StoredDocument \<Rightarrow> string option) \<Rightarrow> jsstring \<Rightarrow> DocumentMetadata \<Rightarrow> DocStore
     \<Rightarrow> error + (nat \<times> DocStore)" where
  "storeDocument add_error content metadata store =
     (let document = \<lparr> sd_content = content, sd_metadata = metadata \<rparr>
      in case add_error document of
           Some message \<Rightarrow>
             Inl (RAGError ''document_storage'' (''Failed to store document: '' @ message))
         | None \<Rightarrow>
             Inr (length (knowledgeBase store),
                  store\<lparr> knowledgeBase := knowledgeBase store @ [document] \<rparr>))"

definition storeEmbedding ::
  "(StoredEmbedding \<Rightarrow> string option) \<Rightarrow> nat \<Rightarrow> real list \<Rightarrow> jsstring \<Rightarrow> DocumentMetadata
     \<Rightarrow> string \<Rightarrow> DocStore \<Rightarrow> error + (nat \<times> DocStore)" where
  "storeEmbedding add_error documentId embedding content metadata model store =
     (let embeddingDoc =
            \<lparr> se_documentId = documentId,
              se_embedding = embedding,
              se_content = content,
              se_metadata = metadata,
              se_model = model,
              se_dimensions = length embedding \<rparr>
      in case add_error embeddingDoc of
           Some message \<Rightarrow>
             Inl (RAGError ''embedding_storage'' (''Failed to store embedding: '' @ message))
         | None \<Rightarrow>
             Inr (length (embeddings store),
                  store\<lparr> embeddings := embeddings store @ [embeddingDoc] \<rparr>))"

text \<open>\<open>calculateCosineSimilarity\<close>: the same body as \<open>calculateSimilarity\<close>, with its own
  error message.\<close>

definition calculateCosineSimilarity :: "real list \<Rightarrow> real list \<Rightarrow> error + real" where
  "calculateCosineSimilarity vector1 vector2 =
     (if length vector1 \<noteq> length vector2 then
        Inl (RAGError ''similarity'' ''Vectors must have the same dimensions'')
      else
        (case similarity_sums vector1 vector2 of
           (dotProduct, norm1, norm2) \<Rightarrow>
             (let magnitude = sqrt norm1 * sqrt norm2
              in if magnitude = 0 then Inr 0 else Inr (dotProduct / magnitude))))"

record SearchFilters =
  f_source :: "string list option"
  f_type :: "string list option"
  f_scientificName :: "string option"
  f_country :: "string option"

record VectorSearchQuery =
  q_embedding :: "real list"
  q_limit :: "nat option"
  q_threshold :: "real option"
  q_filters :: "SearchFilters option"

record VectorSearchResult =
  vr_id :: nat
  vr_content :: jsstring
  vr_metadata :: DocumentMetadata
  vr_score :: real
  vr_documentId :: nat

record VectorSearchResponse =
  vs_results :: "VectorSearchResult list"
  vs_totalResults :: nat
  vs_query_limit :: nat
  vs_query_threshold :: real
  vs_query_filters :: "SearchFilters option"

text \<open>The \<open>where\<close> clauses that \<open>vectorSearch\<close> adds to its query, and what a stored
  embedding holds at each field path they name.\<close>

datatype where_clause =
    WhereIn string "string list"
  | WhereEq string string

definition field_value :: "StoredEmbedding \<Rightarrow> string \<Rightarrow> string option" where
  "field_value d path =
     (if path = ''metadata.source'' then Some (md_source (se_metadata d))
      else if path = ''metadata.type'' then Some (md_type (se_metadata d))
      else if path = ''metadata.scientificName'' then md_scientificName (se_metadata d)
      else if path = ''metadata.location.country'' then md_country (se_metadata d)
      else None)"

fun matches_clause :: "StoredEmbedding \<Rightarrow> where_clause \<Rightarrow> bool" where
  "matches_clause d (WhereIn path vs) =
     (case field_value d path of None \<Rightarrow> False | Some v \<Rightarrow> List.member vs v)"
| "matches_clause d (WhereEq path v') =
     (case field_value d path of None \<Rightarrow> False | Some v \<Rightarrow> v = v')"

definition build_where :: "SearchFilters option \<Rightarrow> where_clause list" where
  "build_where filters =
     (case filters of
        None \<Rightarrow> []
      | Some f \<Rightarrow>
          (case f_source f of
             Some srcs \<Rightarrow> if length srcs > 0 then [WhereIn ''metadata.source'' srcs] else []
           | None \<Rightarrow> [])
          @ (case f_type f of
               Some tys \<Rightarrow> if length tys > 0 then [WhereIn ''metadata.type'' tys] else []
             | None \<Rightarrow> [])
          @ (case f_scientificName f of
               Some name \<Rightarrow> if name \<noteq> [] then [WhereEq ''metadata.scientificName'' name] else []
             | None \<Rightarrow> [])
          @ (case f_country f of
               Some country \<Rightarrow>
                 if country \<noteq> [] then [WhereEq ''metadata.location.country'' country] else []
             | None \<Rightarrow> []))"

text \<open>\<open>firestoreQuery.limit(n).get()\<close>: the first \<open>n\<close> documents, in storage order, that
  satisfy every clause, each with its identifier.\<close>

definition query_get ::
  "StoredEmbedding list \<Rightarrow> where_clause list \<Rightarrow> nat \<Rightarrow> (nat \<times> StoredEmbedding) list" where
  "query_get collection clauses n =
     take n (filter (\<lambda>(i, d). list_all (matches_clause d) clauses)
               (zip [0..<length collection] collection))"

text \<open>The \<open>forEach\<close> over the snapshot: a candidate is a search result together with its
  \<open>similarity\<close>; a throw of \<open>calculateCosineSimilarity\<close> leaves the loop.\<close>

fun collect_candidates ::
  "real list \<Rightarrow> real \<Rightarrow> (nat \<times> StoredEmbedding) list \<Rightarrow> (VectorSearchResult \<times> real) list
     \<Rightarrow> error + (VectorSearchResult \<times> real) list" where
  "collect_candidates queryEmbedding threshold [] candidates = Inr candidates"
| "collect_candidates queryEmbedding threshold ((i, d) # docs) candidates =
     (case calculateCosineSimilarity queryEmbedding (se_embedding d) of
        Inl e \<Rightarrow> Inl e
      | Inr similarity \<Rightarrow>
          collect_candidates queryEmbedding threshold docs
            (if similarity \<ge> threshold then
               candidates @ [(\<lparr> vr_id = i, vr_content = se_content d,
                                 vr_metadata = se_metadata d, vr_score = similarity,
                                 vr_documentId = se_documentId d \<rparr>, similarity)]
             else candidates))"

text \<open>The \<open>try\<close> block of \<open>vectorSearch\<close>, after \<open>limit\<close> and \<open>threshold\<close> are fixed.
  \<open>Array.prototype.sort\<close> is stable, as \<open>sort_key\<close> is; the comparator
  \<open>b.similarity - a.similarity\<close> orders by descending similarity.\<close>

definition vectorSearch_try ::
  "DocStore \<Rightarrow> VectorSearchQuery \<Rightarrow> nat \<Rightarrow> real \<Rightarrow> error + VectorSearchResponse" where
  "vectorSearch_try store query limit threshold =
     (let snapshot = query_get (embeddings store) (build_where (q_filters query))
                       (min (limit * 10) 1000)
      in if snapshot = [] then
           Inr \<lparr> vs_results = [], vs_totalResults = 0, vs_query_limit = limit,
                 vs_query_threshold = threshold, vs_query_filters = q_filters query \<rparr>
         else
           (case collect_candidates (q_embedding query) threshold snapshot [] of
              Inl e \<Rightarrow> Inl e
            | Inr candidates \<Rightarrow>
                (let sorted_candidates = sort_key (\<lambda>c. - snd c) candidates;
                     results = map fst (take limit sorted_candidates)
                 in Inr \<lparr> vs_results = results, vs_totalResults = length results,
                          vs_query_limit = limit, vs_query_threshold = threshold,
                          vs_query_filters = q_filters query \<rparr>)))"

definition vectorSearch ::
  "Config \<Rightarrow> DocStore \<Rightarrow> VectorSearchQuery \<Rightarrow> error + VectorSearchResponse" where
  "vectorSearch config store query =
     (let limit = js_or (q_limit query) (rag_maxRetrievalResults config);
          threshold = js_or (q_threshold query) (rag_similarityThreshold config)
      in case vectorSearch_try store query limit threshold of
           Inl e \<Rightarrow> Inl (RAGError ''vector_search'' (''Vector search failed: '' @ error_message e))
         | Inr response \<Rightarrow> Inr response)"






text \<open>Example data: a store that holds one embedding, of the vector \<open>(3, 4)\<close>, and a
  query for the vector \<open>(1, 0)\<close>; their cosine similarity is \<open>3/5\<close>.\<close>

definition example_metadata :: DocumentMetadata where
  "example_metadata =
     \<lparr> md_source = ''gbif'', md_type = ''species'', md_scientificName = None,
       md_country = None, md_chunkIndex = None, md_totalChunks = None \<rparr>"

definition example_embedding :: StoredEmbedding where
  "example_embedding =
     \<lparr> se_documentId = 0, se_embedding = [3, 4], se_content = [0x61],
       se_metadata = example_metadata, se_model = ''text-embedding-004'',
       se_dimensions = 2 \<rparr>"

definition example_store :: DocStore where
  "example_store = \<lparr> knowledgeBase = [], embeddings = [example_embedding] \<rparr>"

definition example_query :: VectorSearchQuery where
  "example_query =
     \<lparr> q_embedding = [1, 0], q_limit = Some 5, q_threshold = Some (1 / 2),
       q_filters = None \<rparr>"



section \<open>IngestionService: the job record\<close>

datatype JobStatus = Queued | Running | Completed | Failed | Cancelled

datatype Phase = Fetching | Processing | Embedding | Storing | PhaseCompleted

record Progress =
  pr_phase :: Phase
  pr_processed :: nat
  pr_total :: nat
  pr_percentage :: nat

record Results =
  res_documentsIngested :: nat
  res_embeddingsCreated :: nat
  res_errors :: nat

text \<open>\<open>IngestionJobConfig\<close>: the source, \<open>parameters.limit\<close> and the four options. The
  other request parameters (species, location, date range, categories) are read by the
  provider calls only, which are parameters of this model.\<close>

record IngestionJobConfig =
  cfg_source :: string
  param_limit :: "nat option"
  opt_chunkSize :: "int option"
  opt_chunkOverlap :: "int option"
  opt_batchSize :: "nat option"
  opt_generateEmbeddings :: "bool option"


text \<open>The argument of \<open>update\<close>, a \<open>Partial<IngestionJobStatus>\<close>: the fields it
  names replace those of the stored record, the others are kept.\<close>

record JobUpdate =
  upd_status :: "JobStatus option"
  upd_startedAt :: bool
  upd_completedAt :: bool
  upd_progress :: "Progress option"
  upd_results :: "Results option"
  upd_error :: "string option"

definition no_update :: JobUpdate where
  "no_update = \<lparr> upd_status = None, upd_startedAt = False, upd_completedAt = False,
                  upd_progress = None, upd_results = None, upd_error = None \<rparr>"

definition progress_update :: "Phase \<Rightarrow> nat \<Rightarrow> nat \<Rightarrow> nat \<Rightarrow> JobUpdate" where
  "progress_update ph p t pc =
     no_update\<lparr> upd_progress := Some \<lparr> pr_phase = ph, pr_processed = p, pr_total = t,
                                       pr_percentage = pc \<rparr> \<rparr>"








section \<open>IngestionService: the processing task\<close>

text \<open>
  The collaborators of a job: the four provider calls (\<open>fetchGBIFData\<close> and its
  siblings, given the limit), the four record normalisers, the embedding model and the
  two write outcomes of the document store. Each returns its value or throws. A raw
  record is a parsed JSON value, on which the logging in the \<open>catch\<close> block of
  \<open>processDataItem\<close> does not itself throw.
\<close>

record ('raw) Env =
  fetchGBIFData :: "nat \<Rightarrow> error + 'raw list"
  fetchIUCNData :: "nat \<Rightarrow> error + 'raw list"
  fetchOBISData :: "nat \<Rightarrow> error + 'raw list"
  fetchEBirdData :: "nat \<Rightarrow> error + 'raw list"
  processGBIFItem :: "'raw \<Rightarrow> error + (jsstring \<times> DocumentMetadata)"
  processIUCNItem :: "'raw \<Rightarrow> error + (jsstring \<times> DocumentMetadata)"
  processOBISItem :: "'raw \<Rightarrow> error + (jsstring \<times> DocumentMetadata)"
  processEBirdItem :: "'raw \<Rightarrow> error + (jsstring \<times> DocumentMetadata)"
  embedder :: "jsstring \<Rightarrow> error + real list"
  kb_add_error :: "StoredDocument \<Rightarrow> string option"
  emb_add_error :: "StoredEmbedding \<Rightarrow> string option"

record ProcessedDocument =
  pd_content :: jsstring
  pd_metadata :: DocumentMetadata
  pd_chunks :: "jsstring list option"

text \<open>
  The processing task never reads the job record: it only calls \<open>updateJobStatus\<close>. Each
  function of the task therefore returns, with its result, the list of updates it has
  issued, in order; \<open>run_ops\<close> below applies them to the job collection.
\<close>

definition fetchDataFromSource ::
  "'raw Env \<Rightarrow> IngestionJobConfig \<Rightarrow> JobUpdate list \<times> (error + 'raw list)" where
  "fetchDataFromSource env jobConfig =
     (let source = cfg_source jobConfig;
          limit = js_or (param_limit jobConfig) 100;
          fetched =
            (if source = ''gbif'' then fetchGBIFData env limit
             else if source = ''iucn'' then fetchIUCNData env limit
             else if source = ''obis'' then fetchOBISData env limit
             else if source = ''ebird'' then fetchEBirdData env limit
             else Inl (IngestionError source (''Unsupported data source: '' @ source)))
      in ([progress_update Fetching 0 limit 0],
          case fetched of
            Inl e \<Rightarrow>
              Inl (IngestionError source
                     (''Failed to fetch data from '' @ source @ '': '' @ error_message e))
          | Inr rawData \<Rightarrow> Inr rawData))"

text \<open>\<open>processDataItem\<close>: \<open>null\<close> for an unsupported source and when the normaliser
  throws.\<close>

definition processDataItem :: "'raw Env \<Rightarrow> 'raw \<Rightarrow> string \<Rightarrow> ProcessedDocument option" where
  "processDataItem env item source =
     (let normalised =
            (if source = ''gbif'' then Some (processGBIFItem env item)
             else if source = ''iucn'' then Some (processIUCNItem env item)
             else if source = ''obis'' then Some (processOBISItem env item)
             else if source = ''ebird'' then Some (processEBirdItem env item)
             else None)
      in case normalised of
           None \<Rightarrow> None
         | Some (Inl e) \<Rightarrow> None
         | Some (Inr (content, metadata)) \<Rightarrow>
             Some \<lparr> pd_content = content, pd_metadata = metadata, pd_chunks = None \<rparr>)"

text \<open>"Chunk the document if it's too long": \<open>chunks\<close> is set only when the content is
  longer than \<open>chunkSize\<close>. \<open>None\<close>: \<open>chunkText\<close> does not return.\<close>

definition chunk_document :: "ProcessedDocument \<Rightarrow> int \<Rightarrow> int \<Rightarrow> ProcessedDocument option" where
  "chunk_document processedDoc chunkSize chunkOverlap =
     (if int (length (pd_content processedDoc)) > chunkSize then
        (case chunkText (pd_content processedDoc) chunkSize chunkOverlap of
           None \<Rightarrow> None
         | Some chunks \<Rightarrow> Some (processedDoc\<lparr> pd_chunks := Some chunks \<rparr>))
      else Some processedDoc)"

text \<open>The \<open>for\<close> loop of \<open>processDocuments\<close> from index \<open>i\<close> on, over the records still
  to process; \<open>n\<close> is \<open>rawData.length\<close>. Nothing in its \<open>try\<close> block throws, so every
  iteration ends with its progress update.\<close>

fun processDocuments_loop ::
  "'raw Env \<Rightarrow> string \<Rightarrow> int \<Rightarrow> int \<Rightarrow> nat \<Rightarrow> nat \<Rightarrow> 'raw list \<Rightarrow> ProcessedDocument list
     \<Rightarrow> (JobUpdate list \<times> ProcessedDocument list) option" where
  "processDocuments_loop env source chunkSize chunkOverlap n i [] documents =
     Some ([], documents)"
| "processDocuments_loop env source chunkSize chunkOverlap n i (item # rest) documents =
     (case (case processDataItem env item source of
              None \<Rightarrow> Some documents
            | Some processedDoc \<Rightarrow>
                (case chunk_document processedDoc chunkSize chunkOverlap of
                   None \<Rightarrow> None
                 | Some doc \<Rightarrow> Some (documents @ [doc]))) of
        None \<Rightarrow> None
      | Some documents' \<Rightarrow>
          (case processDocuments_loop env source chunkSize chunkOverlap n (i + 1) rest
                  documents' of
             None \<Rightarrow> None
           | Some (updates, result) \<Rightarrow>
               Some (progress_update Processing (i + 1) n (round_percentage (i + 1) n)
                       # updates, result)))"

definition processDocuments ::
  "'raw Env \<Rightarrow> Config \<Rightarrow> 'raw list \<Rightarrow> IngestionJobConfig
     \<Rightarrow> (JobUpdate list \<times> ProcessedDocument list) option" where
  "processDocuments env config rawData jobConfig =
     (let chunkSize = js_or (opt_chunkSize jobConfig) (rag_chunkSize config);
          chunkOverlap = js_or (opt_chunkOverlap jobConfig) (rag_chunkOverlap config)
      in case processDocuments_loop env (cfg_source jobConfig) chunkSize chunkOverlap
                (length rawData) 0 rawData [] of
           None \<Rightarrow> None
         | Some (updates, documents) \<Rightarrow>
             Some (progress_update Processing 0 (length rawData) 0 # updates, documents))"


text \<open>
  The loop over \<open>doc.chunks\<close> inside the \<open>try\<close> block of
  \<open>storeDocumentsWithEmbeddings\<close>, from \<open>chunkIndex\<close> on. The counters and the store are
  mutable state: what was counted and written before a throw stays. The first component
  of the result is the exception that left the loop, if any.
\<close>

fun embed_chunks ::
  "'raw Env \<Rightarrow> EmbeddingService \<Rightarrow> nat \<Rightarrow> DocumentMetadata \<Rightarrow> nat \<Rightarrow> jsstring list \<Rightarrow> nat
     \<Rightarrow> Results \<times> DocStore \<Rightarrow> error option \<times> Results \<times> DocStore" where
  "embed_chunks env svc documentId metadata totalChunks [] chunkIndex (counters, store) =
     (None, counters, store)"
| "embed_chunks env svc documentId metadata totalChunks (chunk # rest) chunkIndex
     (counters, store) =
     (case generateEmbedding svc (embedder env) \<lparr> req_text = chunk \<rparr> of
        Inl e \<Rightarrow> (Some e, counters, store)
      | Inr chunkEmbeddingResponse \<Rightarrow>
          (case storeEmbedding (emb_add_error env) documentId
                  (resp_embedding chunkEmbeddingResponse) chunk
                  (metadata\<lparr> md_chunkIndex := Some chunkIndex,
                             md_totalChunks := Some totalChunks \<rparr>)
                  (resp_model chunkEmbeddingResponse) store of
             Inl e \<Rightarrow> (Some e, counters, store)
           | Inr (embeddingId, store') \<Rightarrow>
               embed_chunks env svc documentId metadata totalChunks rest (chunkIndex + 1)
                 (counters\<lparr> res_embeddingsCreated := res_embeddingsCreated counters + 1 \<rparr>,
                  store')))"

text \<open>The \<open>try\<close> block for one document.\<close>

definition store_document_try ::
  "'raw Env \<Rightarrow> EmbeddingService \<Rightarrow> bool \<Rightarrow> ProcessedDocument \<Rightarrow> Results \<times> DocStore
     \<Rightarrow> error option \<times> Results \<times> DocStore" where
  "store_document_try env svc generateEmbeddings doc state =
     (case state of (counters, store) \<Rightarrow>
        (case storeDocument (kb_add_error env) (pd_content doc) (pd_metadata doc) store of
           Inl e \<Rightarrow> (Some e, counters, store)
         | Inr (documentId, store1) \<Rightarrow>
             (let counters1 =
                    counters\<lparr> res_documentsIngested := res_documentsIngested counters + 1 \<rparr>
              in if generateEmbeddings then
                   (case generateEmbedding svc (embedder env) \<lparr> req_text = pd_content doc \<rparr> of
                      Inl e \<Rightarrow> (Some e, counters1, store1)
                    | Inr embeddingResponse \<Rightarrow>
                        (case storeEmbedding (emb_add_error env) documentId
                                (resp_embedding embeddingResponse) (pd_content doc)
                                (pd_metadata doc) (resp_model embeddingResponse) store1 of
                           Inl e \<Rightarrow> (Some e, counters1, store1)
                         | Inr (embeddingId, store2) \<Rightarrow>
                             (let counters2 =
                                    counters1\<lparr> res_embeddingsCreated :=
                                                 res_embeddingsCreated counters1 + 1 \<rparr>
                              in case pd_chunks doc of
                                   None \<Rightarrow> (None, counters2, store2)
                                 | Some chunks \<Rightarrow>
                                     if length chunks > 0 then
                                       embed_chunks env svc documentId (pd_metadata doc)
                                         (length chunks) chunks 0 (counters2, store2)
                                     else (None, counters2, store2))))
                 else (None, counters1, store1))))"

text \<open>One iteration of \<open>for (const doc of batch)\<close>: the \<open>try\<close> block and its \<open>catch\<close>,
  which counts one error for the document.\<close>

definition store_document ::
  "'raw Env \<Rightarrow> EmbeddingService \<Rightarrow> bool \<Rightarrow> Results \<times> DocStore \<Rightarrow> ProcessedDocument
     \<Rightarrow> Results \<times> DocStore" where
  "store_document env svc generateEmbeddings state doc =
     (case store_document_try env svc generateEmbeddings doc state of
        (None, counters, store) \<Rightarrow> (counters, store)
      | (Some e, counters, store) \<Rightarrow>
          (counters\<lparr> res_errors := res_errors counters + 1 \<rparr>, store))"

text \<open>The loop over batches, from index \<open>i\<close> on, with the updates issued so far. With a
  batch size of 0 the index would never advance (the caller never passes 0).\<close>

function storeDocuments_loop ::
  "'raw Env \<Rightarrow> EmbeddingService \<Rightarrow> bool \<Rightarrow> nat \<Rightarrow> ProcessedDocument list \<Rightarrow> nat
     \<Rightarrow> JobUpdate list \<Rightarrow> Results \<times> DocStore
     \<Rightarrow> (JobUpdate list \<times> Results \<times> DocStore) option" where
  "storeDocuments_loop env svc generateEmbeddings batchSize documents i updates state =
     (if i < length documents then
        (if batchSize = 0 then None
         else
           (let batch = take batchSize (drop i documents);
                state' = foldl (store_document env svc generateEmbeddings) state batch;
                processed = min (i + batchSize) (length documents);
                percentage = round_percentage processed (length documents)
            in storeDocuments_loop env svc generateEmbeddings batchSize documents
                 (i + batchSize)
                 (updates @ [progress_update Storing processed (length documents) percentage])
                 state'))
      else Some (updates, state))"
  by pat_completeness auto
termination
  by (relation "measure (\<lambda>(env, svc, generateEmbeddings, batchSize, documents, i, updates, state).
                          length documents - i)") auto

definition storeDocumentsWithEmbeddings ::
  "'raw Env \<Rightarrow> EmbeddingService \<Rightarrow> ProcessedDocument list \<Rightarrow> IngestionJobConfig \<Rightarrow> DocStore
     \<Rightarrow> (JobUpdate list \<times> Results \<times> DocStore) option" where
  "storeDocumentsWithEmbeddings env svc documents jobConfig store =
     (let generateEmbeddings = (opt_generateEmbeddings jobConfig \<noteq> Some False);
          batchSize = js_or (opt_batchSize jobConfig) 10
      in storeDocuments_loop env svc generateEmbeddings batchSize documents 0
           [progress_update Storing 0 (length documents) 0]
           (\<lparr> res_documentsIngested = 0, res_embeddingsCreated = 0, res_errors = 0 \<rparr>, store))"

text \<open>
  \<open>processIngestionJob\<close>: the updates it issues, the document store it leaves and the
  exception it rethrows, if any. Only the fetch can throw into its \<open>catch\<close> block.
  \<open>None\<close>: the task does not return.
\<close>

text \<open>The three updates that \<open>processIngestionJob\<close> itself issues.\<close>

definition running_update :: JobUpdate where
  "running_update = no_update\<lparr> upd_status := Some Running, upd_startedAt := True \<rparr>"

definition completed_update :: "Results \<Rightarrow> JobUpdate" where
  "completed_update results =
     no_update\<lparr> upd_status := Some Completed,
                upd_completedAt := True,
                upd_progress := Some \<lparr> pr_phase = PhaseCompleted,
                                       pr_processed = res_documentsIngested results,
                                       pr_total = res_documentsIngested results,
                                       pr_percentage = 100 \<rparr>,
                upd_results := Some results \<rparr>"

definition failed_update :: "string \<Rightarrow> JobUpdate" where
  "failed_update errorMessage =
     no_update\<lparr> upd_status := Some Failed, upd_completedAt := True,
                upd_error := Some errorMessage \<rparr>"

definition processIngestionJob ::
  "'raw Env \<Rightarrow> Config \<Rightarrow> IngestionJobConfig \<Rightarrow> DocStore
     \<Rightarrow> (JobUpdate list \<times> DocStore \<times> error option) option" where
  "processIngestionJob env config jobConfig store =
     (case fetchDataFromSource env jobConfig of
        (fetch_updates, Inl e) \<Rightarrow>
          Some ([running_update] @ fetch_updates @ [failed_update (error_message e)],
                store, Some e)
      | (fetch_updates, Inr rawData) \<Rightarrow>
          (case processDocuments env config rawData jobConfig of
             None \<Rightarrow> None
           | Some (process_updates, documents) \<Rightarrow>
               (case storeDocumentsWithEmbeddings env (EmbeddingService_new config)
                       documents jobConfig store of
                  None \<Rightarrow> None
                | Some (store_updates, results, store') \<Rightarrow>
                    Some ([running_update] @ fetch_updates @ process_updates
                            @ store_updates @ [completed_update results],
                          store', None))))"


section \<open>Schedules of the orchestrator's operations on one job\<close>















text \<open>A stored embedding whose vector is an answer of the embedding model and whose
  \<open>dimensions\<close> field is the length of that vector; and a store that differs from an
  earlier one by such embeddings only, added at the end.\<close>

definition from_embedder :: "'raw Env \<Rightarrow> StoredEmbedding \<Rightarrow> bool" where
  "from_embedder env e =
     ((\<exists>text. embedder env text = Inr (se_embedding e))
      \<and> se_dimensions e = length (se_embedding e))"

definition written_by_job :: "'raw Env \<Rightarrow> DocStore \<Rightarrow> DocStore \<Rightarrow> bool" where
  "written_by_job env store store' =
     (\<exists>new. embeddings store' = embeddings store @ new \<and> list_all (from_embedder env) new)"



text \<open>
  Example data. The GBIF provider returns the two records 1 and 2, and the GBIF
  normaliser throws on record 1. The OBIS provider returns the same two records, which
  its normaliser turns into the texts \<open>a\<close> and \<open>b\<close>. The IUCN provider returns nothing.
  The embedding model throws on the text \<open>b\<close> and answers \<open>(3, 4)\<close> otherwise, and the
  document store accepts every write.
\<close>

definition example_env :: "nat Env" where
  "example_env =
     \<lparr> fetchGBIFData = (\<lambda>limit. Inr [1, 2]),
       fetchIUCNData = (\<lambda>limit. Inr []),
       fetchOBISData = (\<lambda>limit. Inr [1, 2]),
       fetchEBirdData = (\<lambda>limit. Inr []),
       processGBIFItem = (\<lambda>item. if item = 1 then Inl (ExternalError ''malformed record'')
                                 else Inr ([0x61], example_metadata)),
       processIUCNItem = (\<lambda>item. Inr ([0x61], example_metadata)),
       processOBISItem = (\<lambda>item. if item = 1 then Inr ([0x61], example_metadata)
                                 else Inr ([0x62], example_metadata)),
       processEBirdItem = (\<lambda>item. Inr ([0x61], example_metadata)),
       embedder = (\<lambda>text. if text = [0x62] then Inl (ExternalError ''model unavailable'')
                           else Inr [3, 4]),
       kb_add_error = (\<lambda>document. None),
       emb_add_error = (\<lambda>embeddingDoc. None) \<rparr>"

definition example_jobConfig :: IngestionJobConfig where
  "example_jobConfig =
     \<lparr> cfg_source = ''gbif'', param_limit = Some 2, opt_chunkSize = None,
       opt_chunkOverlap = None, opt_batchSize = None, opt_generateEmbeddings = None \<rparr>"

definition empty_store :: DocStore where
  "empty_store = \<lparr> knowledgeBase = [], embeddings = [] \<rparr>"

text \<open>What the example's GBIF job and OBIS job issue and leave in the store.\<close>

definition example_gbif_updates :: "JobUpdate list" where
  "example_gbif_updates =
     [running_update, progress_update Fetching 0 2 0, progress_update Processing 0 2 0,
      progress_update Processing 1 2 50, progress_update Processing 2 2 100,
      progress_update Storing 0 1 0, progress_update Storing 1 1 100,
      completed_update \<lparr> res_documentsIngested = 1, res_embeddingsCreated = 1,
                         res_errors = 0 \<rparr>]"

definition example_gbif_store :: DocStore where
  "example_gbif_store =
     \<lparr> knowledgeBase = [\<lparr> sd_content = [0x61], sd_metadata = example_metadata \<rparr>],
       embeddings = [example_embedding] \<rparr>"




section \<open>Chunking\<close>

lemma substring_window:
  assumes "0 \<le> a" "a \<le> b" "b \<le> int (length s)"
  shows "substring s a b = take (nat (b - a)) (drop (nat a) s)"
  using assms by (simp add: substring_def Let_def min_def max_def)

lemma chunkText_loop_closed:
  fixes S ov :: int
  assumes "0 \<le> ov" "ov < S" "0 \<le> start"
    and "ov < int (length text) - start"
    and "int (length text) - start - ov \<le> int k * (S - ov)"
    and "(int k - 1) * (S - ov) < int (length text) - start - ov"
  shows "chunkText_loop text S ov start acc =
           Some (acc @ map (\<lambda>i. take (nat S) (drop (nat start + i * nat (S - ov)) text)) [0..<k])"
  using assms
proof (induction k arbitrary: start acc)
  case 0
  then show ?case by simp
next
  case (Suc k)
  let ?L = "int (length text)"
  let ?f = "\<lambda>st i. take (nat S) (drop (nat st + i * nat (S - ov)) text)"
  have lt: "start < ?L" using Suc.prems by linarith
  show ?case
  proof (cases "?L \<le> start + S")
    case True
    have "int k * (S - ov) < S - ov"
      using Suc.prems True by (simp add: algebra_simps)
    moreover have "0 < S - ov" using Suc.prems by simp
    ultimately have "int k < 1" by (simp add: mult_less_cancel_right2)
    hence "k = 0" by simp
    have sub: "substring text start ?L = take (nat S) (drop (nat start) text)"
      using Suc.prems True lt by (simp add: substring_window)
    have "chunkText_loop text S ov start acc = Some (acc @ [take (nat S) (drop (nat start) text)])"
      using True lt sub by (subst chunkText_loop.simps) (simp add: Let_def min_def)
    thus ?thesis using \<open>k = 0\<close> by simp
  next
    case False
    hence e: "min (start + S) ?L = start + S" by simp
    have sub: "substring text start (start + S) = take (nat S) (drop (nat start) text)"
      using Suc.prems False by (simp add: substring_window)
    have IH: "chunkText_loop text S ov (start + S - ov) (acc @ [take (nat S) (drop (nat start) text)])
       = Some ((acc @ [take (nat S) (drop (nat start) text)]) @ map (?f (start + S - ov)) [0..<k])"
      using Suc.prems False by (intro Suc.IH) (simp_all add: algebra_simps)
    have shift: "?f (start + S - ov) i = ?f start (Suc i)" for i
    proof -
      have "nat (start + S - ov) = nat start + nat (S - ov)"
        using Suc.prems by (simp add: nat_add_distrib[symmetric])
      thus ?thesis by (simp add: algebra_simps)
    qed
    have "map (?f start) [0..<Suc k] = ?f start 0 # map (\<lambda>i. ?f start (Suc i)) [0..<k]"
      by (simp only: upt_conv_Cons[OF zero_less_Suc] list.map map_Suc_upt[symmetric] map_map o_def)
    hence m: "map (?f start) [0..<Suc k] = take (nat S) (drop (nat start) text) # map (?f (start + S - ov)) [0..<k]"
      by (simp add: shift)
    have "chunkText_loop text S ov start acc =
        chunkText_loop text S ov (start + S - ov) (acc @ [take (nat S) (drop (nat start) text)])"
      using lt False sub e by (subst chunkText_loop.simps) (simp add: Let_def)
    also note IH
    finally show ?thesis by (simp only: m append_assoc append_Cons append_Nil)
  qed
qed


lemma concat_windows:
  "concat (map (\<lambda>i. take d (drop (a + i * d) xs)) [0..<n]) = take (n * d) (drop a xs)"
proof (induction n)
  case 0
  show ?case by simp
next
  case (Suc n)
  have "take (n * d + d) (drop a xs) = take (n * d) (drop a xs) @ take d (drop (n * d) (drop a xs))"
    by (rule take_add)
  thus ?case using Suc.IH by (simp add: add.commute)
qed

lemma take_min_remaining:
  "take (min a (length xs - b)) (drop b xs) = take a (drop b xs)"
  by (simp add: min_def)

lemma ceiling_bounds:
  fixes a d :: int
  assumes "0 < d"
  shows "a \<le> \<lceil>real_of_int a / real_of_int d\<rceil> * d"
    and "(\<lceil>real_of_int a / real_of_int d\<rceil> - 1) * d < a"
proof -
  let ?c = "\<lceil>real_of_int a / real_of_int d\<rceil>"
  have d: "0 < real_of_int d" using assms by simp
  have "real_of_int a / real_of_int d \<le> real_of_int ?c" by (rule le_of_int_ceiling)
  hence "real_of_int a \<le> real_of_int ?c * real_of_int d"
    by (simp only: pos_divide_le_eq[OF d])
  hence "real_of_int a \<le> real_of_int (?c * d)" by simp
  thus "a \<le> ?c * d" by (simp only: of_int_le_iff)
  have "real_of_int ?c - 1 < real_of_int a / real_of_int d" by linarith
  hence "(real_of_int ?c - 1) * real_of_int d < real_of_int a"
    by (simp only: pos_less_divide_eq[OF d])
  hence "real_of_int ((?c - 1) * d) < real_of_int a" by simp
  thus "(?c - 1) * d < a" by (simp only: of_int_less_iff)
qed


lemma chunkText_windows:
  fixes S ov :: int
  assumes "0 \<le> ov" and "ov < S" and "S < int (length text)"
  shows "\<exists>cs. chunkText text S ov = Some cs
          \<and> length cs = nat \<lceil>real_of_int (int (length text) - ov) / real_of_int (S - ov)\<rceil>
          \<and> (\<forall>i < length cs.
                 i * nat (S - ov) < length text
               \<and> cs ! i = take (min (nat S) (length text - i * nat (S - ov)))
                              (drop (i * nat (S - ov)) text))
          \<and> hd cs @ concat (map (drop (nat ov)) (tl cs)) = text"
proof -
  let ?L = "int (length text)"
  let ?D = "S - ov"
  define c where "c = \<lceil>real_of_int (?L - ov) / real_of_int ?D\<rceil>"
  let ?c = c
  let ?k = "nat c"
  let ?f = "\<lambda>i. take (nat S) (drop (i * nat ?D) text)"
  have D: "0 < ?D" using assms by simp
  have up: "?L - ov \<le> ?c * ?D" and lo: "(?c - 1) * ?D < ?L - ov"
    using ceiling_bounds[OF D, of "?L - ov"] unfolding c_def by blast+
  have cpos: "1 < ?c"
  proof (rule ccontr)
    assume "\<not> 1 < ?c"
    hence "?c * ?D \<le> 1 * ?D" using D by (intro mult_right_mono) simp_all
    hence "?c * ?D \<le> ?D" by (simp only: mult_1)
    with up assms show False by linarith
  qed
  hence ck: "int ?k = ?c" by simp
  have "chunkText_loop text S ov 0 [] = Some ([] @ map (\<lambda>i. take (nat S) (drop (nat 0 + i * nat ?D) text)) [0..<?k])"
    using assms up lo cpos by (intro chunkText_loop_closed) (simp_all add: ck)
  hence res: "chunkText text S ov = Some (map ?f [0..<?k])"
    by (simp add: chunkText_def)
  have k2: "2 \<le> ?k" using cpos by simp
  have starts: "i * nat ?D < length text" if "i < ?k" for i
  proof -
    have "int i \<le> ?c - 1" using that ck by linarith
    hence "int i * ?D \<le> (?c - 1) * ?D" using D by (intro mult_right_mono) simp_all
    hence "int i * ?D < ?L" using lo assms by linarith
    moreover have "int (i * nat ?D) = int i * ?D" using D by simp
    ultimately show ?thesis by linarith
  qed
  have nth: "map ?f [0..<?k] ! i = take (min (nat S) (length text - i * nat ?D)) (drop (i * nat ?D) text)"
    if "i < ?k" for i
    using that by (simp add: take_min_remaining)
  have tl_eq: "tl (map ?f [0..<?k]) = map (\<lambda>i. ?f (Suc i)) [0..<?k - 1]"
  proof -
    obtain m where m: "?k = Suc m" using k2 by (cases ?k) simp_all
    have "map ?f [0..<Suc m] = ?f 0 # map (\<lambda>i. ?f (Suc i)) [0..<m]"
      by (simp only: upt_conv_Cons[OF zero_less_Suc] list.map map_Suc_upt[symmetric] map_map o_def)
    thus ?thesis using m by simp
  qed
  have hd_eq: "hd (map ?f [0..<?k]) = take (nat S) text"
  proof -
    obtain m where m: "?k = Suc m" using k2 by (cases ?k) simp_all
    show ?thesis unfolding m by (simp add: upt_conv_Cons del: upt_Suc)
  qed
  have SD: "nat S = nat ov + nat ?D" using assms by simp
  have piece: "drop (nat ov) (?f (Suc i)) = take (nat ?D) (drop (nat S + i * nat ?D) text)" for i
  proof -
    have "drop (nat ov) (?f (Suc i)) = take (nat S - nat ov) (drop (nat ov + Suc i * nat ?D) text)"
      by (simp add: drop_take)
    also have "nat S - nat ov = nat ?D" using SD by simp
    also have "nat ov + Suc i * nat ?D = nat S + i * nat ?D" using SD by simp
    finally show ?thesis .
  qed
  have "concat (map (drop (nat ov)) (tl (map ?f [0..<?k])))
        = concat (map (\<lambda>i. take (nat ?D) (drop (nat S + i * nat ?D) text)) [0..<?k - 1])"
    by (simp add: tl_eq o_def piece del: mult_Suc)
  also have "\<dots> = take ((?k - 1) * nat ?D) (drop (nat S) text)"
    by (rule concat_windows)
  also have "\<dots> = drop (nat S) text"
  proof -
    have "int ((?k - 1) * nat ?D) = (?c - 1) * ?D" using D k2 ck by (simp add: of_nat_diff)
    moreover have "?L - S \<le> (?c - 1) * ?D" using up by (simp add: algebra_simps)
    ultimately have "length text - nat S \<le> (?k - 1) * nat ?D" by linarith
    thus ?thesis by simp
  qed
  finally have recon: "hd (map ?f [0..<?k]) @ concat (map (drop (nat ov)) (tl (map ?f [0..<?k]))) = text"
    by (simp add: hd_eq)
  show ?thesis
    using res starts nth recon unfolding c_def[symmetric]
    by (intro exI[of _ "map ?f [0..<?k]"]) simp
qed

text \<open>
  With an overlap that is not smaller than the chunk size the start offset never advances
  past the first chunk: on a text longer than one chunk the loop does not return.
\<close>

lemma chunkText_loop_diverges:
  assumes "chunkText_loop text S ov start acc = Some cs"
  shows "\<not> (S \<le> ov \<and> S < int (length text) \<and> 0 < length text \<and> start \<le> 0)"
proof (rule chunkText_loop.raw_induct[where P = "\<lambda>text S ov start acc cs.
          \<not> (S \<le> ov \<and> S < int (length text) \<and> 0 < length text \<and> start \<le> 0)", OF _ assms])
  fix loop :: "'a list \<Rightarrow> int \<Rightarrow> int \<Rightarrow> int \<Rightarrow> 'a list list \<Rightarrow> 'a list list option"
    and t :: "'a list" and S ov start :: int and acc cs :: "'a list list"
  assume IH: "\<And>t S ov start acc cs. loop t S ov start acc = Some cs \<Longrightarrow>
          \<not> (S \<le> ov \<and> S < int (length t) \<and> 0 < length t \<and> start \<le> 0)"
    and eq: "(if start < int (length t)
      then let end = min (start + S) (int (length t));
               chunk = substring t start end; chunks' = acc @ [chunk]
           in if end = int (length t) then Some chunks'
              else loop t S ov (end - ov) chunks'
      else Some acc) = Some cs"
  show "\<not> (S \<le> ov \<and> S < int (length t) \<and> 0 < length t \<and> start \<le> 0)"
  proof
    assume a: "S \<le> ov \<and> S < int (length t) \<and> 0 < length t \<and> start \<le> 0"
    hence e: "min (start + S) (int (length t)) = start + S" by linarith
    from a have pos: "0 < int (length t)" by simp
    from a pos have lt: "start < int (length t)" by linarith
    from a have ne: "start + S \<noteq> int (length t)" by linarith
    from eq lt ne have "loop t S ov (start + S - ov) (acc @ [substring t start (start + S)]) = Some cs"
      by (simp only: e Let_def if_True if_False)
    from IH[OF this] a show False by simp
  qed
qed

lemma chunkText_diverges:
  assumes "S \<le> ov" and "S < int (length text)" and "0 < length text"
  shows "chunkText text S ov = None"
proof (cases "chunkText text S ov")
  case None
  thus ?thesis .
next
  case (Some cs)
  hence "chunkText_loop text S ov 0 [] = Some cs" by (simp add: chunkText_def)
  from chunkText_loop_diverges[OF this] assms show ?thesis by simp
qed

text \<open>
  C2. For a text of length \<open>L\<close> strictly greater than the chunk size \<open>S\<close>, and an overlap
  \<open>O\<close> with \<open>0 \<le> O < S\<close>, \<open>chunkText\<close> returns, and returns the sliding-window chunks:
  there are \<open>ceil((L - O) / (S - O))\<close> of them, chunk \<open>i\<close> starts at offset \<open>i * (S - O)\<close>
  inside the text and has length \<open>min(S, remaining)\<close>, and the first chunk followed by the
  other chunks without their first \<open>O\<close> characters is the text. A document whose content
  is no longer than \<open>S\<close> is left as it is, without chunks.
\<close>

theorem chunkText_sliding_window:
  fixes S ov :: int
  assumes "0 \<le> ov" and "ov < S"
  shows "(S < int (length text) \<longrightarrow>
           (\<exists>cs. chunkText text S ov = Some cs
              \<and> length cs = nat \<lceil>real_of_int (int (length text) - ov) / real_of_int (S - ov)\<rceil>
              \<and> (\<forall>i < length cs.
                     i * nat (S - ov) < length text
                   \<and> cs ! i = take (min (nat S) (length text - i * nat (S - ov)))
                                  (drop (i * nat (S - ov)) text))
              \<and> hd cs @ concat (map (drop (nat ov)) (tl cs)) = text))
       \<and> (int (length (pd_content doc)) \<le> S \<longrightarrow> chunk_document doc S ov = Some doc)"
proof (intro conjI impI)
  assume "S < int (length text)"
  with assms show "\<exists>cs. chunkText text S ov = Some cs
              \<and> length cs = nat \<lceil>real_of_int (int (length text) - ov) / real_of_int (S - ov)\<rceil>
              \<and> (\<forall>i < length cs.
                     i * nat (S - ov) < length text
                   \<and> cs ! i = take (min (nat S) (length text - i * nat (S - ov)))
                                  (drop (i * nat (S - ov)) text))
              \<and> hd cs @ concat (map (drop (nat ov)) (tl cs)) = text"
    by (rule chunkText_windows)
next
  assume "int (length (pd_content doc)) \<le> S"
  thus "chunk_document doc S ov = Some doc"
    by (simp add: chunk_document_def)
qed

lemma chunkText_example:
  "chunkText ''abcdefghij'' 4 1 = Some [''abcd'', ''defg'', ''ghij'']"
  by code_simp

theorem chunkText_sliding_window_witness:
  "(0::int) \<le> 1 \<and> (1::int) < 4 \<and> 4 < int (length ''abcdefghij'')
   \<and> int (length (pd_content \<lparr> pd_content = [0x61, 0x62],
                 pd_metadata = \<lparr> md_source = ''gbif'', md_type = ''species'',
                   md_scientificName = None, md_country = None, md_chunkIndex = None,
                   md_totalChunks = None \<rparr>,
                 pd_chunks = None \<rparr>)) \<le> 4
   \<and> chunkText ''abcdefghij'' 4 1 = Some [''abcd'', ''defg'', ''ghij'']
   \<and> (\<exists>cs. chunkText ''abcdefghij'' 4 1 = Some cs \<and> length cs = 3
         \<and> hd cs @ concat (map (drop 1) (tl cs)) = ''abcdefghij'')
   \<and> chunk_document \<lparr> pd_content = [0x61, 0x62],
                 pd_metadata = \<lparr> md_source = ''gbif'', md_type = ''species'',
                   md_scientificName = None, md_country = None, md_chunkIndex = None,
                   md_totalChunks = None \<rparr>,
                 pd_chunks = None \<rparr> 4 1
       = Some \<lparr> pd_content = [0x61, 0x62],
                 pd_metadata = \<lparr> md_source = ''gbif'', md_type = ''species'',
                   md_scientificName = None, md_country = None, md_chunkIndex = None,
                   md_totalChunks = None \<rparr>,
                 pd_chunks = None \<rparr>"
proof -
  have h: "(0::int) \<le> 1" "(1::int) < 4" by simp_all
  have c: "\<lceil>real_of_int (int (length ''abcdefghij'') - 1) / real_of_int (4 - 1)\<rceil> = 3"
    by simp
  show ?thesis
    using chunkText_sliding_window[OF h, of "''abcdefghij''"
        "\<lparr> pd_content = [0x61, 0x62],
                 pd_metadata = \<lparr> md_source = ''gbif'', md_type = ''species'',
                   md_scientificName = None, md_country = None, md_chunkIndex = None,
                   md_totalChunks = None \<rparr>,
                 pd_chunks = None \<rparr>"]
      chunkText_example
    by (simp add: c)
qed


section \<open>Cosine similarity\<close>


















lemma sqrt_25: "sqrt 25 = 5"
  by (rule real_sqrt_unique) simp_all





section \<open>Embedding validation\<close>

lemma number_not_NaN_iff:
  "(typeof x = ''number'' \<and> \<not> isNaN x) \<longleftrightarrow> (is_finite_number x \<or> x = JSInfinity \<or> x = JSNegInfinity)"
  by (cases x) simp_all

text \<open>
  C8, as it is stated, fails: with the default dimension of 768, an array of 768
  infinities is accepted by \<open>validateEmbedding\<close>, and none of its elements is a finite
  number.
\<close>

theorem validateEmbedding_infinity_counterexample:
  "\<not> (validateEmbedding (EmbeddingService_new default_config) (JSArray (replicate 768 JSInfinity))
        \<longleftrightarrow> (isArray (JSArray (replicate 768 JSInfinity))
             \<and> length (array_elements (JSArray (replicate 768 JSInfinity)))
                 = rag_vectorDimension default_config
             \<and> list_all is_finite_number (array_elements (JSArray (replicate 768 JSInfinity)))))"
  by (simp add: validateEmbedding_def EmbeddingService_new_def default_config_def list_all_iff)

text \<open>
  C8, amended. \<open>validateEmbedding(vector)\<close> returns true if and only if \<open>vector\<close> is an
  array whose length equals the configured embedding dimension and every element of
  which is a number other than \<open>NaN\<close>: a finite number, \<open>Infinity\<close> or \<open>-Infinity\<close>.
\<close>

theorem validateEmbedding_iff:
  "validateEmbedding svc embedding \<longleftrightarrow>
     (isArray embedding
      \<and> length (array_elements embedding) = es_dimensions svc
      \<and> list_all (\<lambda>value. is_finite_number value \<or> value = JSInfinity \<or> value = JSNegInfinity)
           (array_elements embedding))"
  by (simp add: validateEmbedding_def number_not_NaN_iff)

theorem validateEmbedding_iff_witness:
  "validateEmbedding (EmbeddingService_new default_config) (JSArray (replicate 768 (JSNumber 0)))
   \<and> \<not> validateEmbedding (EmbeddingService_new default_config) (JSArray (replicate 768 JSNaN))
   \<and> \<not> validateEmbedding (EmbeddingService_new default_config) (JSArray [JSNumber 0])
   \<and> \<not> validateEmbedding (EmbeddingService_new default_config) (JSNumber 0)"
  using validateEmbedding_iff[of "EmbeddingService_new default_config" "JSArray (replicate 768 (JSNumber 0))"]
    validateEmbedding_iff[of "EmbeddingService_new default_config" "JSArray (replicate 768 JSNaN)"]
    validateEmbedding_iff[of "EmbeddingService_new default_config" "JSArray [JSNumber 0]"]
    validateEmbedding_iff[of "EmbeddingService_new default_config" "JSNumber 0"]
  by (simp add: EmbeddingService_new_def default_config_def list_all_iff)

section \<open>Embedding generation\<close>

lemma trim_Nil_iff: "trim s = [] \<longleftrightarrow> (\<forall>c\<in>set s. is_js_whitespace c)"
proof -
  have "trim s = [] \<longleftrightarrow> (\<forall>c\<in>set (dropWhile is_js_whitespace s). is_js_whitespace c)"
    by (simp add: trim_def dropWhile_eq_Nil_conv)
  also have "\<dots> \<longleftrightarrow> dropWhile is_js_whitespace s = []"
  proof
    assume a: "\<forall>c\<in>set (dropWhile is_js_whitespace s). is_js_whitespace c"
    show "dropWhile is_js_whitespace s = []"
    proof (rule ccontr)
      assume ne: "dropWhile is_js_whitespace s \<noteq> []"
      hence "\<not> is_js_whitespace (hd (dropWhile is_js_whitespace s))" by (rule hd_dropWhile)
      moreover have "hd (dropWhile is_js_whitespace s) \<in> set (dropWhile is_js_whitespace s)"
        using ne by simp
      ultimately show False using a by blast
    qed
  next
    assume "dropWhile is_js_whitespace s = []"
    hence "set (dropWhile is_js_whitespace s) = {}" by (simp only: set_empty)
    thus "\<forall>c\<in>set (dropWhile is_js_whitespace s). is_js_whitespace c"
      by (simp only: ball_empty)
  qed
  also have "\<dots> \<longleftrightarrow> (\<forall>c\<in>set s. is_js_whitespace c)"
    by (simp add: dropWhile_eq_Nil_conv)
  finally show ?thesis .
qed

text \<open>
  C7. \<open>generateEmbedding\<close> fails with a \<open>RAGError\<close> when the text is empty or consists of
  white space only. A text longer than 8192 characters that is not white space only is
  not rejected: the embedding model is called on its first 8192 characters, and when the
  model answers, the \<open>text\<close> field of the response is that truncated string, not the
  input (when the model throws, so does \<open>generateEmbedding\<close>, with a \<open>RAGError\<close>).
\<close>

theorem generateEmbedding_truncates:
  "((\<forall>c\<in>set (req_text request). is_js_whitespace c) \<longrightarrow>
      (\<exists>message. generateEmbedding (EmbeddingService_new config) emb request
                   = Inl (RAGError ''embedding'' message)))
   \<and> (\<not> (\<forall>c\<in>set (req_text request). is_js_whitespace c) \<and> 8192 < length (req_text request) \<longrightarrow>
        (case emb (take 8192 (req_text request)) of
           Inr v \<Rightarrow>
             generateEmbedding (EmbeddingService_new config) emb request
               = Inr \<lparr> resp_embedding = v,
                       resp_text = take 8192 (req_text request),
                       resp_model = rag_embeddingModel config,
                       resp_dimensions = rag_vectorDimension config \<rparr>
         | Inl e \<Rightarrow>
             (\<exists>operation message.
                generateEmbedding (EmbeddingService_new config) emb request
                  = Inl (RAGError operation message))))"
proof (intro conjI impI)
  assume ws: "\<forall>c\<in>set (req_text request). is_js_whitespace c"
  hence "trim (req_text request) = []" by (simp add: trim_Nil_iff)
  thus "\<exists>message. generateEmbedding (EmbeddingService_new config) emb request
                   = Inl (RAGError ''embedding'' message)"
    by (simp add: generateEmbedding_def generateEmbedding_try_def)
next
  assume a: "\<not> (\<forall>c\<in>set (req_text request). is_js_whitespace c) \<and> 8192 < length (req_text request)"
  hence t: "trim (req_text request) \<noteq> []" and ne: "req_text request \<noteq> []"
    by (auto simp: trim_Nil_iff)
  have sub: "substring (req_text request) 0 8192 = take 8192 (req_text request)"
    using a by (simp add: substring_def Let_def min_def max_def)
  show "case emb (take 8192 (req_text request)) of
           Inr v \<Rightarrow>
             generateEmbedding (EmbeddingService_new config) emb request
               = Inr \<lparr> resp_embedding = v,
                       resp_text = take 8192 (req_text request),
                       resp_model = rag_embeddingModel config,
                       resp_dimensions = rag_vectorDimension config \<rparr>
         | Inl e \<Rightarrow>
             (\<exists>operation message.
                generateEmbedding (EmbeddingService_new config) emb request
                  = Inl (RAGError operation message))"
    using a t ne sub
    by (auto simp: generateEmbedding_def generateEmbedding_try_def EmbeddingService_new_def
          Let_def split: sum.splits error.splits)
qed

theorem generateEmbedding_truncates_witness:
  "list_all is_js_whitespace (req_text \<lparr> req_text = [0x20, 0x9] \<rparr>)
   \<and> generateEmbedding (EmbeddingService_new default_config) (\<lambda>t. Inr [1]) \<lparr> req_text = [0x20, 0x9] \<rparr>
       = Inl (RAGError ''embedding'' ''Text cannot be empty'')
   \<and> \<not> (\<forall>c\<in>set (req_text \<lparr> req_text = replicate 8193 0x61 \<rparr>). is_js_whitespace c)
   \<and> 8192 < length (req_text \<lparr> req_text = replicate 8193 0x61 \<rparr>)
   \<and> generateEmbedding (EmbeddingService_new default_config) (\<lambda>t. Inr [1])
         \<lparr> req_text = replicate 8193 0x61 \<rparr>
       = Inr \<lparr> resp_embedding = [1], resp_text = replicate 8192 0x61,
               resp_model = ''text-embedding-004'', resp_dimensions = 768 \<rparr>"
proof -
  have w: "\<forall>c\<in>set (req_text \<lparr> req_text = [0x20, 0x9] \<rparr>). is_js_whitespace c"
    by (simp add: is_js_whitespace_def)
  have e: "generateEmbedding (EmbeddingService_new default_config) (\<lambda>t. Inr [1]) \<lparr> req_text = [0x20, 0x9] \<rparr>
       = Inl (RAGError ''embedding'' ''Text cannot be empty'')"
    using w by (simp add: generateEmbedding_def generateEmbedding_try_def trim_Nil_iff)
  have n: "\<not> (\<forall>c\<in>set (req_text \<lparr> req_text = replicate 8193 0x61 \<rparr>). is_js_whitespace c)"
    by (simp add: is_js_whitespace_def)
  have l: "8192 < length (req_text \<lparr> req_text = replicate 8193 0x61 \<rparr>)" by simp
  show ?thesis
    using generateEmbedding_truncates[of "\<lparr> req_text = replicate 8193 0x61 \<rparr>" default_config "\<lambda>t. Inr [1]"]
      generateEmbedding_truncates[of "\<lparr> req_text = [0x20, 0x9] \<rparr>" default_config "\<lambda>t. Inr [1]"]
      w e n l
    by (simp add: default_config_def list_all_iff)
qed


section \<open>Vector search\<close>











lemma example_similarity:
  "calculateCosineSimilarity [1, 0] [3, 4] = Inr (3 / 5)"
  by (simp add: calculateCosineSimilarity_def similarity_sums_def sqrt_25)

lemma query_get_singleton:
  "query_get [e] [] n = (if n = 0 then [] else [(0, e)])"
  by (cases n) (simp_all add: query_get_def)

lemma example_search_zero:
  "vectorSearch default_config example_store (example_query\<lparr> q_threshold := Some 0 \<rparr>)
     = Inr \<lparr> vs_results = [], vs_totalResults = 0, vs_query_limit = 5,
             vs_query_threshold = 7 / 10, vs_query_filters = None \<rparr>"
  by (simp add: vectorSearch_def vectorSearch_try_def default_config_def example_store_def
        example_query_def js_or_def build_where_def query_get_singleton
        example_similarity example_embedding_def Let_def)






text \<open>
  C10. In \<open>vectorSearch\<close> a caller-supplied threshold of 0, or limit of 0, is replaced by
  the configured default: the search is the search with the default in its place, and
  the response reports the default. Every other caller-supplied value is used as given:
  with a limit and a threshold that are not 0 the configured defaults have no influence
  on the search, and the response reports the caller's values.
\<close>

theorem vectorSearch_zero_defaults:
  "vectorSearch config store (query\<lparr> q_threshold := Some 0 \<rparr>)
     = vectorSearch config store (query\<lparr> q_threshold := Some (rag_similarityThreshold config) \<rparr>)
   \<and> vectorSearch config store (query\<lparr> q_limit := Some 0 \<rparr>)
     = vectorSearch config store (query\<lparr> q_limit := Some (rag_maxRetrievalResults config) \<rparr>)
   \<and> (\<forall>response. vectorSearch config store (query\<lparr> q_threshold := Some 0 \<rparr>) = Inr response
         \<longrightarrow> vs_query_threshold response = rag_similarityThreshold config)
   \<and> (\<forall>response. vectorSearch config store (query\<lparr> q_limit := Some 0 \<rparr>) = Inr response
         \<longrightarrow> vs_query_limit response = rag_maxRetrievalResults config)
   \<and> (\<forall>l t. l \<noteq> 0 \<and> t \<noteq> 0 \<longrightarrow>
          vectorSearch config store (query\<lparr> q_limit := Some l, q_threshold := Some t \<rparr>)
            = vectorSearch config' store (query\<lparr> q_limit := Some l, q_threshold := Some t \<rparr>)
        \<and> (\<forall>response.
              vectorSearch config store (query\<lparr> q_limit := Some l, q_threshold := Some t \<rparr>)
                = Inr response
              \<longrightarrow> vs_query_limit response = l \<and> vs_query_threshold response = t))"
  by (auto simp: vectorSearch_def vectorSearch_try_def js_or_def Let_def
        split: sum.splits if_splits)

theorem vectorSearch_zero_defaults_witness:
  "vectorSearch default_config example_store (example_query\<lparr> q_threshold := Some 0 \<rparr>)
     = vectorSearch default_config example_store (example_query\<lparr> q_threshold := Some (7 / 10) \<rparr>)
   \<and> vectorSearch default_config example_store (example_query\<lparr> q_threshold := Some 0 \<rparr>)
     = Inr \<lparr> vs_results = [], vs_totalResults = 0, vs_query_limit = 5,
             vs_query_threshold = 7 / 10, vs_query_filters = None \<rparr>
   \<and> vectorSearch default_config example_store (example_query\<lparr> q_limit := Some 0 \<rparr>)
     = vectorSearch default_config example_store (example_query\<lparr> q_limit := Some 10 \<rparr>)
   \<and> vectorSearch default_config example_store
         (example_query\<lparr> q_limit := Some 5, q_threshold := Some (1 / 2) \<rparr>)
     = vectorSearch (default_config\<lparr> rag_similarityThreshold := 0, rag_maxRetrievalResults := 1 \<rparr>)
         example_store (example_query\<lparr> q_limit := Some 5, q_threshold := Some (1 / 2) \<rparr>)"
proof -
  have five: "(5::nat) \<noteq> 0 \<and> (1 / 2 :: real) \<noteq> 0" by simp
  show ?thesis
    using vectorSearch_zero_defaults[of default_config example_store example_query
        "default_config\<lparr> rag_similarityThreshold := 0, rag_maxRetrievalResults := 1 \<rparr>"]
      five example_search_zero
    by (simp add: default_config_def)
qed

section \<open>Stored embeddings\<close>

text \<open>
  C9, as it is stated, fails: with the configured dimension 768, \<open>storeEmbedding\<close>
  persists a vector of length 1.
\<close>

theorem storeEmbedding_dimension_counterexample:
  "storeEmbedding (\<lambda>d. None) 0 [1] [0x61] example_metadata ''text-embedding-004''
       \<lparr> knowledgeBase = [], embeddings = [] \<rparr>
     = Inr (0, \<lparr> knowledgeBase = [],
                 embeddings = [\<lparr> se_documentId = 0, se_embedding = [1], se_content = [0x61],
                                 se_metadata = example_metadata,
                                 se_model = ''text-embedding-004'', se_dimensions = 1 \<rparr>] \<rparr>)
   \<and> length (se_embedding \<lparr> se_documentId = 0, se_embedding = [1], se_content = [0x61],
                                 se_metadata = example_metadata,
                                 se_model = ''text-embedding-004'', se_dimensions = 1 \<rparr>)
       \<noteq> rag_vectorDimension default_config"
  by (simp add: storeEmbedding_def default_config_def)


section \<open>The job record under a schedule\<close>











section \<open>The phases of the processing task\<close>



lemma storeDocuments_loop_state:
  assumes "0 < b"
  shows "\<exists>us'. storeDocuments_loop env svc gen b docs i us st =
                  Some (us', foldl (store_document env svc gen) st (drop i docs))"
proof (induction "length docs - i" arbitrary: i us st rule: less_induct)
  case less
  show ?case
  proof (cases "i < length docs")
    case False
    thus ?thesis by (subst storeDocuments_loop.simps) simp
  next
    case True
    let ?st' = "foldl (store_document env svc gen) st (take b (drop i docs))"
    let ?us' = "us @ [progress_update Storing (min (i + b) (length docs)) (length docs)
                       (round_percentage (min (i + b) (length docs)) (length docs))]"
    have "length docs - (i + b) < length docs - i" using True assms by simp
    from less.hyps[OF this, of ?us' ?st'] obtain us'' where
      rec: "storeDocuments_loop env svc gen b docs (i + b) ?us' ?st' =
              Some (us'', foldl (store_document env svc gen) ?st' (drop (i + b) docs))"
      by blast
    have "foldl (store_document env svc gen) ?st' (drop (i + b) docs)
            = foldl (store_document env svc gen) st (take b (drop i docs) @ drop b (drop i docs))"
      by (simp add: add.commute)
    hence fold: "foldl (store_document env svc gen) ?st' (drop (i + b) docs)
            = foldl (store_document env svc gen) st (drop i docs)"
      by (simp only: append_take_drop_id)
    have "storeDocuments_loop env svc gen b docs i us st
            = storeDocuments_loop env svc gen b docs (i + b) ?us' ?st'"
      using True assms by (subst storeDocuments_loop.simps) (simp add: Let_def)
    thus ?thesis using rec fold by simp
  qed
qed



section \<open>Counters of the storing phase\<close>







section \<open>The updates of the processing task\<close>







section \<open>Status and percentage along a schedule\<close>






















lemma example_gbif_job:
  "processIngestionJob example_env default_config example_jobConfig empty_store
     = Some (example_gbif_updates, example_gbif_store, None)"
  by code_simp




section \<open>Partial failures of an ingestion job\<close>


lemma storeDocumentsWithEmbeddings_result:
  "\<exists>su. storeDocumentsWithEmbeddings env svc documents jobConfig store =
           Some (su, foldl (store_document env svc (opt_generateEmbeddings jobConfig \<noteq> Some False))
                       (\<lparr> res_documentsIngested = 0, res_embeddingsCreated = 0,
                          res_errors = 0 \<rparr>, store) documents)"
proof -
  have "0 < js_or (opt_batchSize jobConfig) (10::nat)"
    by (simp add: js_or_def split: option.splits)
  from storeDocuments_loop_state[OF this, of env svc
        "opt_generateEmbeddings jobConfig \<noteq> Some False" documents 0
        "[progress_update Storing 0 (length documents) 0]"
        "(\<lparr> res_documentsIngested = 0, res_embeddingsCreated = 0, res_errors = 0 \<rparr>, store)"]
  show ?thesis by (simp add: storeDocumentsWithEmbeddings_def Let_def)
qed










section \<open>Embeddings written by a job\<close>

lemma generateEmbedding_from_embedder:
  assumes "generateEmbedding svc emb request = Inr response"
  shows "\<exists>text. emb text = Inr (resp_embedding response)"
  using assms
  by (auto simp: generateEmbedding_def generateEmbedding_try_def Let_def
        split: sum.splits if_splits error.splits)

lemma storeEmbedding_appends:
  assumes "storeEmbedding add_error documentId embedding content metadata model store
             = Inr (embeddingId, store')"
  shows "embeddings store' =
           embeddings store @ [\<lparr> se_documentId = documentId, se_embedding = embedding,
                                  se_content = content, se_metadata = metadata,
                                  se_model = model, se_dimensions = length embedding \<rparr>]
       \<and> knowledgeBase store' = knowledgeBase store
       \<and> embeddingId = length (embeddings store)"
  using assms by (auto simp: storeEmbedding_def Let_def split: option.splits)

lemma written_by_job_trans:
  assumes "written_by_job env store store1" and "written_by_job env store1 store2"
  shows "written_by_job env store store2"
proof -
  from assms(1) obtain new1 where
    1: "embeddings store1 = embeddings store @ new1"
       "list_all (from_embedder env) new1"
    by (auto simp: written_by_job_def)
  from assms(2) obtain new2 where
    2: "embeddings store2 = embeddings store1 @ new2"
       "list_all (from_embedder env) new2"
    by (auto simp: written_by_job_def)
  have "embeddings store2 = embeddings store @ (new1 @ new2)" using 1 2 by simp
  moreover have "list_all (from_embedder env) (new1 @ new2)" using 1 2 by simp
  ultimately show ?thesis unfolding written_by_job_def by blast
qed

lemma written_by_job_refl: "written_by_job env store store"
  by (simp add: written_by_job_def)

lemma written_by_job_storeDocument:
  assumes "storeDocument add_error content metadata store = Inr (documentId, store')"
  shows "written_by_job env store store'"
  using assms by (auto simp: storeDocument_def written_by_job_def Let_def split: option.splits)

lemma written_by_job_embedding:
  assumes "generateEmbedding svc (embedder env) request = Inr response"
    and "storeEmbedding add_error documentId (resp_embedding response) content metadata model store
           = Inr (embeddingId, store')"
  shows "written_by_job env store store'"
proof -
  from generateEmbedding_from_embedder[OF assms(1)] obtain t
    where "embedder env t = Inr (resp_embedding response)" by blast
  hence "from_embedder env \<lparr> se_documentId = documentId, se_embedding = resp_embedding response,
                                  se_content = content, se_metadata = metadata,
                                  se_model = model,
                                  se_dimensions = length (resp_embedding response) \<rparr>"
    by (auto simp: from_embedder_def)
  thus ?thesis
    using storeEmbedding_appends[OF assms(2)] unfolding written_by_job_def by auto
qed

lemma written_by_job_embed_chunks:
  assumes "embed_chunks env svc documentId metadata totalChunks chunks chunkIndex (c, s)
             = (e, c', s')"
  shows "written_by_job env s s'"
  using assms
proof (induction chunks arbitrary: chunkIndex c s)
  case Nil
  thus ?case by (simp add: written_by_job_refl)
next
  case (Cons chunk rest)
  show ?case
  proof (cases "generateEmbedding svc (embedder env) \<lparr> req_text = chunk \<rparr>")
    case (Inl err)
    with Cons.prems show ?thesis by (simp add: written_by_job_refl)
  next
    case (Inr response)
    note gen = this
    show ?thesis
    proof (cases "storeEmbedding (emb_add_error env) documentId (resp_embedding response) chunk
                    (metadata\<lparr> md_chunkIndex := Some chunkIndex,
                               md_totalChunks := Some totalChunks \<rparr>)
                    (resp_model response) s")
      case (Inl err)
      with Cons.prems gen show ?thesis by (simp add: written_by_job_refl)
    next
      case (Inr stored)
      obtain embeddingId s1 where stored: "stored = (embeddingId, s1)" by (cases stored)
      from Cons.prems gen Inr stored
      have "embed_chunks env svc documentId metadata totalChunks rest (chunkIndex + 1)
              (c\<lparr> res_embeddingsCreated := res_embeddingsCreated c + 1 \<rparr>, s1) = (e, c', s')"
        by simp
      from Cons.IH[OF this] have "written_by_job env s1 s'" .
      moreover have "written_by_job env s s1"
        using written_by_job_embedding[OF gen] Inr stored by simp
      ultimately show ?thesis by (rule written_by_job_trans[rotated])
    qed
  qed
qed


lemma written_by_job_store_document_try:
  assumes "store_document_try env svc gen doc (c, s) = (e, c', s')"
  shows "written_by_job env s s'"
proof (cases "storeDocument (kb_add_error env) (pd_content doc) (pd_metadata doc) s")
  case (Inl err)
  with assms show ?thesis by (simp add: store_document_try_def written_by_job_refl)
next
  case (Inr stored)
  obtain documentId s1 where stored: "stored = (documentId, s1)" by (cases stored)
  note doc = Inr[unfolded stored]
  have w1: "written_by_job env s s1" by (rule written_by_job_storeDocument[OF doc])
  show ?thesis
  proof (cases gen)
    case False
    with assms doc have "s' = s1" by (simp add: store_document_try_def Let_def)
    thus ?thesis using w1 by simp
  next
    case True
    show ?thesis
    proof (cases "generateEmbedding svc (embedder env) \<lparr> req_text = pd_content doc \<rparr>")
      case (Inl err)
      with assms doc True have "s' = s1" by (simp add: store_document_try_def Let_def)
      thus ?thesis using w1 by simp
    next
      case (Inr response)
      note gen_ok = this
      show ?thesis
      proof (cases "storeEmbedding (emb_add_error env) documentId (resp_embedding response)
                      (pd_content doc) (pd_metadata doc) (resp_model response) s1")
        case (Inl err)
        with assms doc True gen_ok have "s' = s1"
          by (simp add: store_document_try_def Let_def)
        thus ?thesis using w1 by simp
      next
        case (Inr stored2)
        obtain embeddingId s2 where stored2: "stored2 = (embeddingId, s2)" by (cases stored2)
        note emb = Inr[unfolded stored2]
        have w2: "written_by_job env s1 s2" by (rule written_by_job_embedding[OF gen_ok emb])
        have w12: "written_by_job env s s2" by (rule written_by_job_trans[OF w1 w2])
        show ?thesis
        proof (cases "pd_chunks doc")
          case None
          with assms doc True gen_ok emb have "s' = s2"
            by (simp add: store_document_try_def Let_def)
          thus ?thesis using w12 by simp
        next
          case (Some chunks)
          show ?thesis
          proof (cases "length chunks > 0")
            case False
            with assms doc True gen_ok emb Some have "s' = s2"
              by (simp add: store_document_try_def Let_def)
            thus ?thesis using w12 by simp
          next
            case nonempty: True
            with assms doc True gen_ok emb Some
            have "embed_chunks env svc documentId (pd_metadata doc) (length chunks) chunks 0
                    (c\<lparr> res_documentsIngested := res_documentsIngested c + 1,
                        res_embeddingsCreated := res_embeddingsCreated c + 1 \<rparr>, s2)
                  = (e, c', s')"
              by (simp add: store_document_try_def Let_def)
            from written_by_job_embed_chunks[OF this] have "written_by_job env s2 s'" .
            with w12 show ?thesis by (rule written_by_job_trans)
          qed
        qed
      qed
    qed
  qed
qed

lemma written_by_job_store_document:
  assumes "store_document env svc gen (c, s) doc = (c', s')"
  shows "written_by_job env s s'"
proof -
  obtain e c1 s1 where t: "store_document_try env svc gen doc (c, s) = (e, c1, s1)"
    by (cases "store_document_try env svc gen doc (c, s)")
  from assms t have "s' = s1" by (cases e) (simp_all add: store_document_def)
  thus ?thesis using written_by_job_store_document_try[OF t] by simp
qed

lemma written_by_job_foldl:
  assumes "foldl (store_document env svc gen) (c, s) docs = (c', s')"
  shows "written_by_job env s s'"
  using assms
proof (induction docs arbitrary: c s)
  case Nil
  thus ?case by (simp add: written_by_job_refl)
next
  case (Cons d docs)
  obtain c1 s1 where one: "store_document env svc gen (c, s) d = (c1, s1)"
    by (cases "store_document env svc gen (c, s) d")
  from Cons.prems one have "foldl (store_document env svc gen) (c1, s1) docs = (c', s')"
    by simp
  from Cons.IH[OF this] written_by_job_store_document[OF one] show ?case
    by (rule written_by_job_trans[rotated])
qed

lemma written_by_job_task:
  assumes "processIngestionJob env config jobConfig store = Some (updates, store', err)"
  shows "written_by_job env store store'"
proof (cases "snd (fetchDataFromSource env jobConfig)")
  case (Inl e)
  with assms have "store' = store"
    by (cases "fetchDataFromSource env jobConfig") (auto simp: processIngestionJob_def)
  thus ?thesis by (simp add: written_by_job_refl)
next
  case (Inr rawData)
  obtain fu where f: "fetchDataFromSource env jobConfig = (fu, Inr rawData)"
    using Inr by (cases "fetchDataFromSource env jobConfig") simp
  from assms f obtain pu documents su results where
    "storeDocumentsWithEmbeddings env (EmbeddingService_new config) documents jobConfig store
       = Some (su, results, store')"
    by (auto simp: processIngestionJob_def split: option.splits)
  moreover from storeDocumentsWithEmbeddings_result[of env "EmbeddingService_new config" documents
                   jobConfig store]
  obtain su' where
    "storeDocumentsWithEmbeddings env (EmbeddingService_new config) documents jobConfig store
       = Some (su', foldl (store_document env (EmbeddingService_new config)
                            (opt_generateEmbeddings jobConfig \<noteq> Some False))
                      (\<lparr> res_documentsIngested = 0, res_embeddingsCreated = 0,
                         res_errors = 0 \<rparr>, store) documents)"
    by blast
  ultimately have "foldl (store_document env (EmbeddingService_new config)
                            (opt_generateEmbeddings jobConfig \<noteq> Some False))
                      (\<lparr> res_documentsIngested = 0, res_embeddingsCreated = 0,
                         res_errors = 0 \<rparr>, store) documents = (results, store')"
    by simp
  thus ?thesis by (rule written_by_job_foldl)
qed

text \<open>
  C9, amended. Every \<open>StoredEmbedding\<close> persisted via \<open>storeEmbedding\<close> holds the vector
  that was passed to \<open>storeEmbedding\<close>, unchanged, and its \<open>dimensions\<close> field is the
  length of that vector. Every embedding record written during an ingestion job holds a
  vector that the embedding model returned, so its length is the configured dimension
  whenever the model's answers have that length.
\<close>

theorem storeEmbedding_persists_vector:
  "(storeEmbedding add_error documentId embedding content metadata model store
       = Inr (embeddingId, store') \<longrightarrow>
      embeddings store' =
        embeddings store @ [\<lparr> se_documentId = documentId, se_embedding = embedding,
                               se_content = content, se_metadata = metadata,
                               se_model = model, se_dimensions = length embedding \<rparr>]
    \<and> embeddingId = length (embeddings store))
   \<and> (processIngestionJob env config jobConfig job_store = Some (updates, job_store', err) \<longrightarrow>
        (\<exists>new. embeddings job_store' = embeddings job_store @ new
           \<and> list_all (from_embedder env) new
           \<and> ((\<forall>t v. embedder env t = Inr v \<longrightarrow> length v = rag_vectorDimension config) \<longrightarrow>
                list_all (\<lambda>e. length (se_embedding e) = rag_vectorDimension config
                             \<and> se_dimensions e = rag_vectorDimension config) new)))"
proof (intro conjI impI)
  assume "storeEmbedding add_error documentId embedding content metadata model store
       = Inr (embeddingId, store')"
  from storeEmbedding_appends[OF this]
  show "embeddings store' =
        embeddings store @ [\<lparr> se_documentId = documentId, se_embedding = embedding,
                               se_content = content, se_metadata = metadata,
                               se_model = model, se_dimensions = length embedding \<rparr>]"
    and "embeddingId = length (embeddings store)"
    by simp_all
next
  assume "processIngestionJob env config jobConfig job_store = Some (updates, job_store', err)"
  from written_by_job_task[OF this] obtain new where
    new: "embeddings job_store' = embeddings job_store @ new"
      "list_all (from_embedder env) new"
    by (auto simp: written_by_job_def)
  have "list_all (\<lambda>e. length (se_embedding e) = rag_vectorDimension config
                             \<and> se_dimensions e = rag_vectorDimension config) new"
    if "\<forall>t v. embedder env t = Inr v \<longrightarrow> length v = rag_vectorDimension config"
    using new(2) that by (auto simp: list_all_iff from_embedder_def)
  with new show "\<exists>new. embeddings job_store' = embeddings job_store @ new
           \<and> list_all (from_embedder env) new
           \<and> ((\<forall>t v. embedder env t = Inr v \<longrightarrow> length v = rag_vectorDimension config) \<longrightarrow>
                list_all (\<lambda>e. length (se_embedding e) = rag_vectorDimension config
                             \<and> se_dimensions e = rag_vectorDimension config) new)"
    by blast
qed

theorem storeEmbedding_persists_vector_witness:
  "storeEmbedding (\<lambda>d. None) 0 [3, 4] [0x61] example_metadata ''text-embedding-004'' empty_store
     = Inr (0, \<lparr> knowledgeBase = [], embeddings = [example_embedding] \<rparr>)
   \<and> embeddings \<lparr> knowledgeBase = [], embeddings = [example_embedding] \<rparr>
       = embeddings empty_store @ [example_embedding]
   \<and> processIngestionJob example_env default_config example_jobConfig empty_store
       = Some (example_gbif_updates, example_gbif_store, None)
   \<and> (\<exists>new. embeddings example_gbif_store = embeddings empty_store @ new
          \<and> list_all (from_embedder example_env) new)"
proof -
  have s: "storeEmbedding (\<lambda>d. None) 0 [3, 4] [0x61] example_metadata ''text-embedding-004''
             empty_store
     = Inr (0, \<lparr> knowledgeBase = [], embeddings = [example_embedding] \<rparr>)"
    by (simp add: storeEmbedding_def empty_store_def example_embedding_def)
  from storeEmbedding_persists_vector[of "\<lambda>d. None" 0 "[3, 4]" "[0x61]" example_metadata
         "''text-embedding-004''" empty_store 0
         "\<lparr> knowledgeBase = [], embeddings = [example_embedding] \<rparr>"
         example_env default_config example_jobConfig empty_store example_gbif_updates
         example_gbif_store None]
    s example_gbif_job
  have "embeddings \<lparr> knowledgeBase = [], embeddings = [example_embedding] \<rparr>
       = embeddings empty_store @ [example_embedding]"
    and "\<exists>new. embeddings example_gbif_store = embeddings empty_store @ new
          \<and> list_all (from_embedder example_env) new"
    by (auto simp: example_embedding_def)
  with s example_gbif_job show ?thesis by simp
qed

end
